theory Spec2Isabelle
  imports Main "HOL-Library.Word" "HOL-Library.Mapping" "HOL-Library.AList_Mapping"
begin

unbundle bit_operations_syntax

section \<open>Values shared by the proxy and the relay\<close>

type_synonym byte = "8 word"
type_synonym bytes = "byte list"

text \<open>
  Go errors that the two programs can hold in an \<open>error\<close> variable: the key size error of
  \<open>aes.NewCipher\<close>, the proxy's \<open>notTrustedDirectoryServerError\<close>, the error of a
  \<open>json.Unmarshal\<close>, and the error of an \<open>rpc.Dial\<close> or of a \<open>Call\<close> on an rpc client.
\<close>

datatype go_error =
    KeySizeError nat
  | NotTrustedDirectoryServerError
  | UnmarshalError
  | RPCError string

text \<open>
  A Go function either returns, or panics (and net/rpc does not recover a panic of a
  handler), or the process is ended from inside it.
\<close>

datatype panic = SliceBoundsOutOfRange | NilPointerDereference

datatype 'a outcome = Returned 'a | Panicked panic | Exited

definition obind :: "'a outcome \<Rightarrow> ('a \<Rightarrow> 'b outcome) \<Rightarrow> 'b outcome" where
  "obind r f = (case r of Returned x \<Rightarrow> f x | Panicked p \<Rightarrow> Panicked p | Exited \<Rightarrow> Exited)"

text \<open>
  Package \<open>shared\<close> is not among the sources. Its structs are read off the fields the two
  programs use: \<open>shared.Onion\<close> has \<open>Data\<close>, \<open>IsExitNode\<close> and \<open>NextAddress\<close>;
  \<open>shared.Cell\<close> has \<open>CircuitId\<close> and \<open>Data\<close> (here \<open>CellData\<close>);
  \<open>shared.CircuitInfo\<close> has \<open>CircuitId\<close> (here \<open>InfoCircuitId\<close>) and
  \<open>EncryptedSharedKey\<close>.
\<close>

record Onion =
  Data :: bytes
  IsExitNode :: bool
  NextAddress :: string

definition zero_Onion :: Onion where
  "zero_Onion = \<lparr>Data = [], IsExitNode = False, NextAddress = []\<rparr>"

record Cell =
  CircuitId :: "32 word"
  CellData :: bytes

record CircuitInfo =
  InfoCircuitId :: "32 word"
  EncryptedSharedKey :: bytes

section \<open>AES in cipher feedback mode\<close>

text \<open>
  \<open>crypto/aes\<close> is a parameter \<open>aes\<close>: \<open>aes key\<close> is the encryption of one block under
  \<open>key\<close>. \<open>aes.NewCipher\<close> accepts keys of 16, 24 and 32 bytes and returns a nil block
  and a \<open>KeySizeError\<close> for any other length.
\<close>

type_synonym block_cipher = "bytes \<Rightarrow> bytes \<Rightarrow> bytes"

abbreviation BlockSize :: nat where
  "BlockSize \<equiv> 16"

definition NewCipher :: "block_cipher \<Rightarrow> bytes \<Rightarrow> go_error + (bytes \<Rightarrow> bytes)" where
  "NewCipher aes key =
     (if length key = 16 \<or> length key = 24 \<or> length key = 32 then Inr (aes key)
      else Inl (KeySizeError (length key)))"

text \<open>A block cipher writes a block of \<open>BlockSize\<close> bytes for every input.\<close>

definition block_sized :: "block_cipher \<Rightarrow> bool" where
  "block_sized aes = (\<forall>key b. length (aes key b) = BlockSize)"

definition xor_bytes :: "bytes \<Rightarrow> bytes \<Rightarrow> bytes" where
  "xor_bytes src out = map2 (XOR) src out"

text \<open>
  \<open>XORKeyStream\<close> of the stream that \<open>cipher.NewCFBEncrypter(block, iv)\<close> returns, called
  once on the whole source: the register \<open>next\<close> starts as the IV; each round encrypts it
  into \<open>out\<close>, xors up to a block of the source with \<open>out\<close>, and copies the ciphertext just
  written over the start of \<open>next\<close>.
\<close>

fun CFBEncrypter_XORKeyStream :: "(bytes \<Rightarrow> bytes) \<Rightarrow> bytes \<Rightarrow> bytes \<Rightarrow> bytes" where
  "CFBEncrypter_XORKeyStream b next [] = []"
| "CFBEncrypter_XORKeyStream b next (x # xs) =
     (let out = b next;
          dst = xor_bytes (take BlockSize (x # xs)) out
      in dst @ CFBEncrypter_XORKeyStream b (dst @ drop (length dst) next) (drop BlockSize (x # xs)))"

text \<open>
  The decrypting stream of \<open>cipher.NewCFBDecrypter(block, iv)\<close>: the same rounds, but the
  register takes the ciphertext read, not the bytes written.
\<close>

fun CFBDecrypter_XORKeyStream :: "(bytes \<Rightarrow> bytes) \<Rightarrow> bytes \<Rightarrow> bytes \<Rightarrow> bytes" where
  "CFBDecrypter_XORKeyStream b next [] = []"
| "CFBDecrypter_XORKeyStream b next (x # xs) =
     (let out = b next;
          src = take BlockSize (x # xs);
          dst = xor_bytes src out
      in dst @ CFBDecrypter_XORKeyStream b (take (length dst) src @ drop (length dst) next)
                 (drop BlockSize (x # xs)))"

text \<open>
  \<open>io.ReadFull(rand.Reader, iv)\<close> over a zeroed slice of \<open>n\<close> bytes, when the reader
  delivers the bytes \<open>r\<close>: a short read leaves the rest of the slice zero, and the proxy
  goes on after printing the error.
\<close>

definition ReadFull :: "bytes \<Rightarrow> nat \<Rightarrow> bytes" where
  "ReadFull r n = take n r @ replicate (n - length r) 0"

section \<open>Serialisation\<close>

text \<open>
  \<open>shared.ChatMessage\<close> and \<open>shared.PollingMessage\<close>, from the fields the programs use
  (\<open>PollIRCServerAddr\<close> is the \<open>IRCServerAddr\<close> of a polling message).
\<close>

record ChatMessage =
  IRCServerAddr :: string
  Username :: string
  Message :: string

record PollingMessage =
  PollIRCServerAddr :: string
  LastMessageId :: int

text \<open>
  \<open>encoding/json\<close> is a parameter, one function per call the programs make.
  \<open>json.Unmarshal(data, &v)\<close> is always called on a zero \<open>v\<close>; its model gives the error
  and the value \<open>v\<close> holds afterwards. Every caller in the sources drops the error.
\<close>

record json_codec =
  MarshalOnion :: "Onion \<Rightarrow> bytes"
  UnmarshalOnion :: "bytes \<Rightarrow> go_error option \<times> Onion"
  MarshalChat :: "ChatMessage \<Rightarrow> bytes"
  UnmarshalChat :: "bytes \<Rightarrow> go_error option \<times> ChatMessage"
  UnmarshalPolling :: "bytes \<Rightarrow> go_error option \<times> PollingMessage"

section \<open>The network as one process sees it\<close>

datatype rpc_request =
    ORServer_DecryptChatMessageCell Cell
  | ORServer_DecryptPollingCell Cell
  | ORServer_SendCircuitInfo CircuitInfo
  | CServer_PublishMessage string
  | CServer_GetNewMessages int
  | DServer_GetNodes
  | DServer_KeepNodeOnline string

text \<open>
  What a process does to the outside: \<open>rpc.Dial\<close> to an address, a \<open>Call\<close> on the client
  that a dial returned, a \<open>Call\<close> on the directory client opened at start.
\<close>

datatype event =
    Dial string
  | Call string rpc_request
  | CallDirectory rpc_request

text \<open>
  \<open>dial a\<close> is the error of \<open>rpc.Dial("tcp", a)\<close>; \<open>call a req\<close> is what a blocking
  \<open>Call\<close> to the server at \<open>a\<close> leaves in the reply (a message list, used by the polling
  calls only) and the error it returns.
\<close>

record net =
  dial :: "string \<Rightarrow> go_error option"
  call :: "string \<Rightarrow> rpc_request \<Rightarrow> string list \<times> go_error option"

type_synonym 'a run = "event list \<times> 'a outcome"

definition andThen :: "'a run \<Rightarrow> ('a \<Rightarrow> 'b run) \<Rightarrow> 'b run" where
  "andThen r f =
     (case r of
        (evs, Returned x) \<Rightarrow> (case f x of (evs', r') \<Rightarrow> (evs @ evs', r'))
      | (evs, Panicked p) \<Rightarrow> (evs, Panicked p)
      | (evs, Exited) \<Rightarrow> (evs, Exited))"

text \<open>
  Modelled from the spec: \<open>util.HandleFatalError\<close>, of package \<open>util\<close>, which is not
  among the sources. With a nil error it returns: the flows of the spec go on past its
  calls (the build once the node set is fetched, the send once the guard has answered).
  What it does with an error that is not nil is in neither the sources nor the spec: its
  name says fatal, and of the errors the programs hand to it the spec calls some fatal
  (dial and listen at start) and others not (a heartbeat, a dial or a call inside a
  circuit). That is the parameter \<open>fatal\<close>, which may return, panic or end the process.
\<close>

definition HandleFatalError :: "unit outcome \<Rightarrow> string \<Rightarrow> go_error option \<Rightarrow> unit outcome" where
  "HandleFatalError fatal msg err = (case err of None \<Rightarrow> Returned () | Some e \<Rightarrow> fatal)"

section \<open>The onion router\<close>

text \<open>
  \<open>DialOR\<close> of the router: dial, hand the error to \<open>HandleFatalError\<close>, and return the
  client. The client of a failed dial is nil (\<open>None\<close>); the client of a dial that succeeded
  is known by the address it is connected to.
\<close>

definition DialOR :: "unit outcome \<Rightarrow> net \<Rightarrow> string \<Rightarrow> (string option) run" where
  "DialOR fatal nw ORAddr =
     (let err = dial nw ORAddr;
          orServer = (case err of None \<Rightarrow> Some ORAddr | Some e \<Rightarrow> None)
      in andThen ([Dial ORAddr], HandleFatalError fatal ''Could not dial OR'' err)
           (\<lambda>_. ([], Returned orServer)))"

text \<open>
  A blocking \<open>Call\<close> on the client a dial returned: on the nil client of a failed dial it
  dereferences nil; on a live client it gives the reply and the error of the call.
\<close>

definition client_Call ::
  "net \<Rightarrow> string option \<Rightarrow> rpc_request \<Rightarrow> (string list \<times> go_error option) run" where
  "client_Call nw client req =
     (case client of
        None \<Rightarrow> ([], Panicked NilPointerDereference)
      | Some a \<Rightarrow> ([Call a req], Returned (call nw a req)))"

text \<open>
  \<open>sharedKeysByCircuitId[cell.CircuitId]\<close>: a Go map gives the zero value, a nil slice, for
  a key it does not hold.
\<close>

definition lookup_key :: "(32 word \<rightharpoonup> bytes) \<Rightarrow> 32 word \<Rightarrow> bytes" where
  "lookup_key sharedKeysByCircuitId cid =
     (case sharedKeysByCircuitId cid of None \<Rightarrow> [] | Some key \<Rightarrow> key)"

text \<open>
  Lines 204 to 217 of \<open>DecryptChatMessageCell\<close>, which \<open>DecryptPollingCell\<close> repeats at
  233 to 246: the layer a relay decodes from a cell's data under a key.
  The error of \<open>aes.NewCipher\<close> is printed and the handler goes on.
  \<open>cell.Data[:aes.BlockSize]\<close> panics when 16 exceeds the capacity of the slice and
  \<open>cell.Data[aes.BlockSize:]\<close> when 16 exceeds its length, which the capacity is never
  below: together they panic exactly when the data is shorter than a block.
  \<open>cipher.NewCFBDecrypter\<close> on the nil block of a failed \<open>NewCipher\<close> dereferences it.
  The error of \<open>json.Unmarshal\<close> is dropped.
\<close>

definition decrypt_one_layer :: "json_codec \<Rightarrow> block_cipher \<Rightarrow> bytes \<Rightarrow> bytes \<Rightarrow> Onion outcome" where
  "decrypt_one_layer json aes key data =
     (let cipherkey = NewCipher aes key in
      if length data < BlockSize then Panicked SliceBoundsOutOfRange
      else
        let iv = take BlockSize data;
            jsonData = drop BlockSize data
        in case cipherkey of
             Inl err \<Rightarrow> Panicked NilPointerDereference
           | Inr b \<Rightarrow>
               Returned (snd (UnmarshalOnion json (CFBDecrypter_XORKeyStream b iv jsonData))))"

definition DeliverChatMessage ::
  "json_codec \<Rightarrow> unit outcome \<Rightarrow> net \<Rightarrow> bytes \<Rightarrow> (go_error option) run" where
  "DeliverChatMessage json fatal nw chatMessageByteArray =
     (let chatMessage = snd (UnmarshalChat json chatMessageByteArray) in
      case dial nw (IRCServerAddr chatMessage) of
        Some e \<Rightarrow> ([Dial (IRCServerAddr chatMessage)], Panicked NilPointerDereference)
      | None \<Rightarrow>
          (let req = CServer_PublishMessage (Username chatMessage @ '': '' @ Message chatMessage);
               err = snd (call nw (IRCServerAddr chatMessage) req)
           in andThen
                ([Dial (IRCServerAddr chatMessage), Call (IRCServerAddr chatMessage) req],
                 HandleFatalError fatal ''Could not dial IRC'' err)
                (\<lambda>_. ([], Returned None))))"

definition RelayChatMessageOnion ::
  "unit outcome \<Rightarrow> net \<Rightarrow> string \<Rightarrow> bytes \<Rightarrow> 32 word \<Rightarrow> (go_error option) run" where
  "RelayChatMessageOnion fatal nw nextORAddress nextOnion circuitId =
     (let cell = \<lparr>CircuitId = circuitId, CellData = nextOnion\<rparr> in
      andThen (DialOR fatal nw nextORAddress)
        (\<lambda>nextORServer.
           andThen (client_Call nw nextORServer (ORServer_DecryptChatMessageCell cell))
             (\<lambda>reply. ([], Returned (snd reply)))))"

text \<open>
  The handler of a chat cell. The value either callee returns is dropped, and the handler
  returns nil.
\<close>

definition DecryptChatMessageCell ::
  "json_codec \<Rightarrow> block_cipher \<Rightarrow> unit outcome \<Rightarrow> net \<Rightarrow> (32 word \<rightharpoonup> bytes) \<Rightarrow> Cell \<Rightarrow>
   (go_error option) run" where
  "DecryptChatMessageCell json aes fatal nw sharedKeysByCircuitId cell =
     (let key = lookup_key sharedKeysByCircuitId (CircuitId cell) in
      andThen ([], decrypt_one_layer json aes key (CellData cell))
        (\<lambda>currOnion.
           let nextOnion = Data currOnion in
           if IsExitNode currOnion then
             andThen (DeliverChatMessage json fatal nw (Data currOnion)) (\<lambda>_. ([], Returned None))
           else
             andThen (RelayChatMessageOnion fatal nw (NextAddress currOnion) nextOnion (CircuitId cell))
               (\<lambda>_. ([], Returned None))))"

definition DeliverPollingMessage ::
  "json_codec \<Rightarrow> unit outcome \<Rightarrow> net \<Rightarrow> bytes \<Rightarrow> (string list \<times> go_error option) run" where
  "DeliverPollingMessage json fatal nw pollingMessageByteArray =
     (let pollingMessage = snd (UnmarshalPolling json pollingMessageByteArray) in
      case dial nw (PollIRCServerAddr pollingMessage) of
        Some e \<Rightarrow> ([Dial (PollIRCServerAddr pollingMessage)], Panicked NilPointerDereference)
      | None \<Rightarrow>
          (let req = CServer_GetNewMessages (LastMessageId pollingMessage);
               reply = call nw (PollIRCServerAddr pollingMessage) req
           in andThen
                ([Dial (PollIRCServerAddr pollingMessage), Call (PollIRCServerAddr pollingMessage) req],
                 HandleFatalError fatal ''Could not dial IRC'' (snd reply))
                (\<lambda>_. ([], Returned (fst reply, None)))))"

definition RelayPollingOnion ::
  "unit outcome \<Rightarrow> net \<Rightarrow> string \<Rightarrow> bytes \<Rightarrow> 32 word \<Rightarrow> (string list \<times> go_error option) run" where
  "RelayPollingOnion fatal nw nextORAddress nextOnion circuitId =
     (let cell = \<lparr>CircuitId = circuitId, CellData = nextOnion\<rparr> in
      andThen (DialOR fatal nw nextORAddress)
        (\<lambda>nextORServer. client_Call nw nextORServer (ORServer_DecryptPollingCell cell)))"

text \<open>The handler of a polling cell: the reply is the message list, the error is nil.\<close>

definition DecryptPollingCell ::
  "json_codec \<Rightarrow> block_cipher \<Rightarrow> unit outcome \<Rightarrow> net \<Rightarrow> (32 word \<rightharpoonup> bytes) \<Rightarrow> Cell \<Rightarrow>
   (string list \<times> go_error option) run" where
  "DecryptPollingCell json aes fatal nw sharedKeysByCircuitId cell =
     (let key = lookup_key sharedKeysByCircuitId (CircuitId cell) in
      andThen ([], decrypt_one_layer json aes key (CellData cell))
        (\<lambda>currOnion.
           let nextOnion = Data currOnion in
           if IsExitNode currOnion then
             andThen (DeliverPollingMessage json fatal nw (Data currOnion))
               (\<lambda>r. ([], Returned (fst r, None)))
           else
             andThen (RelayPollingOnion fatal nw (NextAddress currOnion) nextOnion (CircuitId cell))
               (\<lambda>r. ([], Returned (fst r, None)))))"

text \<open>
  \<open>sendHeartBeat\<close> makes one \<open>DServer.KeepNodeOnline\<close> call on the directory client and
  hands its error \<open>err\<close> to \<open>HandleFatalError\<close>.
\<close>

definition sendHeartBeat :: "unit outcome \<Rightarrow> string \<Rightarrow> go_error option \<Rightarrow> unit run" where
  "sendHeartBeat fatal addr err =
     ([CallDirectory (DServer_KeepNodeOnline addr)],
      HandleFatalError fatal ''Could not send heartbeat to directory server'' err)"

text \<open>
  \<open>startSendingHeartbeatsToServer\<close> is \<open>for { or.sendHeartBeat(); time.Sleep(...) }\<close>,
  a loop with no exit. \<open>dir t\<close> is the error of the directory call of round \<open>t\<close>. The
  model runs \<open>fuel\<close> rounds from round \<open>t\<close>; \<open>None\<close> says the loop is still running after
  them. The sleep of 500 ms between two rounds is not modelled.
\<close>

fun startSendingHeartbeatsToServer ::
  "unit outcome \<Rightarrow> string \<Rightarrow> (nat \<Rightarrow> go_error option) \<Rightarrow> nat \<Rightarrow> nat \<Rightarrow>
   event list \<times> unit outcome option" where
  "startSendingHeartbeatsToServer fatal addr dir t 0 = ([], None)"
| "startSendingHeartbeatsToServer fatal addr dir t (Suc fuel) =
     (case sendHeartBeat fatal addr (dir t) of
        (evs, Returned _) \<Rightarrow>
          (case startSendingHeartbeatsToServer fatal addr dir (Suc t) fuel of
             (evs', r) \<Rightarrow> (evs @ evs', r))
      | (evs, Panicked p) \<Rightarrow> (evs, Some (Panicked p))
      | (evs, Exited) \<Rightarrow> (evs, Some Exited))"

section \<open>The onion proxy\<close>

type_synonym rsa_PublicKey = "nat \<times> int"
type_synonym ecdsa_PublicKey = "int \<times> int"

record orInfo =
  address :: string
  pubKey :: rsa_PublicKey
  sharedKey :: bytes

record OnionProxy =
  addr :: string
  username :: string
  circuitId :: "32 word"
  ircServerAddr :: string
  ORInfoByHopNum :: "(nat, orInfo) mapping"

definition directoryServerPubKey :: string where
  "directoryServerPubKey =
     ''0449e30da789d5b12a9487a96d70d69b6b8cbd6821d7a647f35c18a8d5f0969054ae3130e7a2a813363eb578747bc77048b700badea328df20ce68a58fcd0e4166f538f9393e0b4072d069cc4cc631271660dc5ebebb20531f11eeb4bd5aa6a5ca''"

text \<open>
  \<open>shared.OnionRouterInfos\<close>, the reply of \<open>DServer.GetNodes\<close>, from the fields the proxy
  reads: the signer's key behind a pointer, the digest, the two halves of the signature and
  the routers in path order (\<open>RouterPubKey\<close> is the \<open>PubKey\<close> of one router).
\<close>

record OnionRouterInfo =
  Address :: string
  RouterPubKey :: rsa_PublicKey

record OnionRouterInfos =
  PubKey :: "ecdsa_PublicKey option"
  Hash :: bytes
  SigR :: int
  SigS :: int
  ORInfos :: "OnionRouterInfo list"

text \<open>
  The functions of \<open>crypto/ecdsa\<close> and of the absent package \<open>util\<close> that the circuit
  build calls are parameters.
\<close>

record crypto_util =
  PubKeyToString :: "ecdsa_PublicKey \<Rightarrow> string"
  ecdsa_Verify :: "ecdsa_PublicKey \<Rightarrow> bytes \<Rightarrow> int \<Rightarrow> int \<Rightarrow> bool"
  RSAEncrypt :: "rsa_PublicKey \<Rightarrow> bytes \<Rightarrow> bytes"

text \<open>\<open>DialOR\<close> of the proxy, which returns the client as the router's does.\<close>

definition OP_DialOR :: "unit outcome \<Rightarrow> net \<Rightarrow> string \<Rightarrow> (string option) run" where
  "OP_DialOR fatal nw ORAddr =
     (let err = dial nw ORAddr;
          orServer = (case err of None \<Rightarrow> Some ORAddr | Some e \<Rightarrow> None)
      in andThen ([Dial ORAddr], HandleFatalError fatal ''Could not dial onion router'' err)
           (\<lambda>_. ([], Returned orServer)))"

text \<open>
  The loop of \<open>GetCircuitFromDServer\<close> over \<open>ORSet.ORInfos\<close>, from hop \<open>hopNum\<close> on.
  \<open>GenerateAESKey hopNum\<close> is the key that \<open>util.GenerateAESKey()\<close> draws in that round.
  The error and the reply of the \<open>ORServer.SendCircuitInfo\<close> call are not read.
\<close>

fun build_hops ::
  "crypto_util \<Rightarrow> unit outcome \<Rightarrow> net \<Rightarrow> (nat \<Rightarrow> bytes) \<Rightarrow> 32 word \<Rightarrow> nat \<Rightarrow>
   OnionRouterInfo list \<Rightarrow> (nat, orInfo) mapping \<Rightarrow> ((nat, orInfo) mapping) run" where
  "build_hops u fatal nw GenerateAESKey cid hopNum [] tbl = ([], Returned tbl)"
| "build_hops u fatal nw GenerateAESKey cid hopNum (onionRouterInfo # rest) tbl =
     (let sharedKey = GenerateAESKey hopNum;
          encryptedSharedKey = RSAEncrypt u (RouterPubKey onionRouterInfo) sharedKey;
          circuitInfo = \<lparr>InfoCircuitId = cid, EncryptedSharedKey = encryptedSharedKey\<rparr>
      in case OP_DialOR fatal nw (Address onionRouterInfo) of
           (evs, Returned client) \<Rightarrow>
             (case client_Call nw client (ORServer_SendCircuitInfo circuitInfo) of
                (evs1, Returned _) \<Rightarrow>
                  (case build_hops u fatal nw GenerateAESKey cid (Suc hopNum) rest
                          (Mapping.update hopNum
                             \<lparr>address = Address onionRouterInfo,
                              pubKey = RouterPubKey onionRouterInfo,
                              sharedKey = sharedKey\<rparr> tbl) of
                     (evs', r) \<Rightarrow> (evs @ evs1 @ evs', r))
              | (evs1, Panicked p) \<Rightarrow> (evs @ evs1, Panicked p)
              | (evs1, Exited) \<Rightarrow> (evs @ evs1, Exited))
         | (evs, Panicked p) \<Rightarrow> (evs, Panicked p)
         | (evs, Exited) \<Rightarrow> (evs, Exited))"

text \<open>
  \<open>GetCircuitFromDServer\<close>. \<open>Uint32\<close> is the value \<open>math_rand.Uint32()\<close> draws and
  \<open>GetNodes\<close> the error and the reply of the \<open>DServer.GetNodes\<close> call. The circuit id
  is assigned before the reply is verified, and the hop table is written in place.
\<close>

definition GetCircuitFromDServer ::
  "crypto_util \<Rightarrow> unit outcome \<Rightarrow> net \<Rightarrow> 32 word \<Rightarrow> go_error option \<times> OnionRouterInfos \<Rightarrow>
   (nat \<Rightarrow> bytes) \<Rightarrow> OnionProxy \<Rightarrow> (OnionProxy \<times> go_error option) run" where
  "GetCircuitFromDServer u fatal nw Uint32 GetNodes GenerateAESKey op =
     (let op1 = op\<lparr>circuitId := Uint32\<rparr>;
          ORSet = snd GetNodes
      in andThen
           ([CallDirectory DServer_GetNodes],
            HandleFatalError fatal ''Could not get circuit from directory server'' (fst GetNodes))
           (\<lambda>_. case PubKey ORSet of
                   None \<Rightarrow> ([], Panicked NilPointerDereference)
                 | Some pk \<Rightarrow>
                     if PubKeyToString u pk \<noteq> directoryServerPubKey
                        \<or> \<not> ecdsa_Verify u pk (Hash ORSet) (SigR ORSet) (SigS ORSet)
                     then ([], Returned (op1, Some NotTrustedDirectoryServerError))
                     else andThen
                            (build_hops u fatal nw GenerateAESKey (circuitId op1) 0 (ORInfos ORSet)
                               (ORInfoByHopNum op1))
                            (\<lambda>tbl. ([], Returned (op1\<lparr>ORInfoByHopNum := tbl\<rparr>, None)))))"

text \<open>
  One round of the loop of \<open>OnionizeData\<close>, for hop \<open>hopNum\<close>, in two parts.
  First the layer (lines 215 to 225): \<open>len(op.ORInfoByHopNum)\<close> is the size of the
  map, and reading a field through the nil pointer that the map gives for a missing
  hop panics.
\<close>

definition unencrypted_layer :: "(nat, orInfo) mapping \<Rightarrow> nat \<Rightarrow> bytes \<Rightarrow> Onion outcome" where
  "unencrypted_layer hops hopNum encryptedLayer =
     (if Suc hopNum = Mapping.size hops
      then Returned \<lparr>Data = encryptedLayer, IsExitNode = True, NextAddress = []\<rparr>
      else (case Mapping.lookup hops (Suc hopNum) of
              None \<Rightarrow> Panicked NilPointerDereference
            | Some nxt \<Rightarrow>
                Returned \<lparr>Data = encryptedLayer, IsExitNode = False, NextAddress = address nxt\<rparr>))"

text \<open>
  Then its encryption (lines 227 to 249). \<open>rnd hopNum\<close> are the bytes \<open>rand.Reader\<close>
  delivers in this round. The error of \<open>aes.NewCipher\<close> is printed, and
  \<open>cipher.NewCFBEncrypter\<close> on the nil block dereferences it.
\<close>

definition encrypt_layer ::
  "json_codec \<Rightarrow> block_cipher \<Rightarrow> (nat \<Rightarrow> bytes) \<Rightarrow> (nat, orInfo) mapping \<Rightarrow> nat \<Rightarrow> Onion \<Rightarrow> bytes outcome" where
  "encrypt_layer json aes rnd hops hopNum unencryptedLayer =
     (let jsonData = MarshalOnion json unencryptedLayer in
      case Mapping.lookup hops hopNum of
        None \<Rightarrow> Panicked NilPointerDereference
      | Some cur \<Rightarrow>
          (case NewCipher aes (sharedKey cur) of
             Inl err \<Rightarrow> Panicked NilPointerDereference
           | Inr cipherkey \<Rightarrow>
               let iv = ReadFull (rnd hopNum) BlockSize
               in Returned (iv @ CFBEncrypter_XORKeyStream cipherkey iv jsonData)))"

definition onionize_layer ::
  "json_codec \<Rightarrow> block_cipher \<Rightarrow> (nat \<Rightarrow> bytes) \<Rightarrow> (nat, orInfo) mapping \<Rightarrow> nat \<Rightarrow> bytes \<Rightarrow> bytes outcome" where
  "onionize_layer json aes rnd hops hopNum encryptedLayer =
     obind (unencrypted_layer hops hopNum encryptedLayer)
       (encrypt_layer json aes rnd hops hopNum)"

text \<open>
  The loop \<open>for hopNum := len(op.ORInfoByHopNum) - 1; hopNum >= 0; hopNum--\<close>, counted by
  \<open>hopNum + 1\<close>, which is never negative.
\<close>

fun onionize_loop ::
  "json_codec \<Rightarrow> block_cipher \<Rightarrow> (nat \<Rightarrow> bytes) \<Rightarrow> (nat, orInfo) mapping \<Rightarrow> nat \<Rightarrow> bytes \<Rightarrow> bytes outcome" where
  "onionize_loop json aes rnd hops 0 encryptedLayer = Returned encryptedLayer"
| "onionize_loop json aes rnd hops (Suc hopNum) encryptedLayer =
     (case onionize_layer json aes rnd hops hopNum encryptedLayer of
        Returned ciphertext \<Rightarrow> onionize_loop json aes rnd hops hopNum ciphertext
      | Panicked p \<Rightarrow> Panicked p
      | Exited \<Rightarrow> Exited)"

definition OnionizeData ::
  "json_codec \<Rightarrow> block_cipher \<Rightarrow> (nat \<Rightarrow> bytes) \<Rightarrow> (nat, orInfo) mapping \<Rightarrow> bytes \<Rightarrow> bytes outcome" where
  "OnionizeData json aes rnd hops coreData =
     onionize_loop json aes rnd hops (Mapping.size hops) coreData"

text \<open>
  \<open>SendChatMessageOnion\<close>: the cell is built, then the guard's address is read through
  \<open>op.ORInfoByHopNum[0]\<close>, then the guard is dialled and called.
\<close>

definition SendChatMessageOnion ::
  "unit outcome \<Rightarrow> net \<Rightarrow> OnionProxy \<Rightarrow> bytes \<Rightarrow> 32 word \<Rightarrow> (go_error option) run" where
  "SendChatMessageOnion fatal nw op onionToSend circId =
     (let cell = \<lparr>CircuitId = circId, CellData = onionToSend\<rparr> in
      case Mapping.lookup (ORInfoByHopNum op) 0 of
        None \<Rightarrow> ([], Panicked NilPointerDereference)
      | Some guard \<Rightarrow>
          andThen (OP_DialOR fatal nw (address guard))
            (\<lambda>guardNodeRPCClient.
               andThen (client_Call nw guardNodeRPCClient (ORServer_DecryptChatMessageCell cell))
                 (\<lambda>reply.
                    andThen
                      ([], HandleFatalError fatal ''Could not send onion to guard node''
                             (snd reply))
                      (\<lambda>_. ([], Returned (snd reply))))))"

definition SendMessage ::
  "json_codec \<Rightarrow> block_cipher \<Rightarrow> unit outcome \<Rightarrow> net \<Rightarrow> (nat \<Rightarrow> bytes) \<Rightarrow> OnionProxy \<Rightarrow> string \<Rightarrow>
   (go_error option) run" where
  "SendMessage json aes fatal nw rnd op message =
     (let chatMessage = \<lparr>IRCServerAddr = ircServerAddr op, Username = username op,
                         Message = message\<rparr>;
          jsonData = MarshalChat json chatMessage
      in andThen ([], OnionizeData json aes rnd (ORInfoByHopNum op) jsonData)
           (\<lambda>onion. SendChatMessageOnion fatal nw op onion (circuitId op)))"

section \<open>A chain of relays\<close>

text \<open>
  What a chain of relays decodes from a cell's data when the relay of each hop holds that
  hop's key: every relay applies \<open>decrypt_one_layer\<close> and passes \<open>currOnion.Data\<close> on as
  the data of the next cell. The result is the list of decoded layers, in hop order, and the
  data inside the last of them.
\<close>

fun unwrap_layers ::
  "json_codec \<Rightarrow> block_cipher \<Rightarrow> bytes list \<Rightarrow> bytes \<Rightarrow> (Onion list \<times> bytes) outcome" where
  "unwrap_layers json aes [] data = Returned ([], data)"
| "unwrap_layers json aes (key # keys) data =
     (case decrypt_one_layer json aes key data of
        Returned layer \<Rightarrow>
          (case unwrap_layers json aes keys (Data layer) of
             Returned r \<Rightarrow> Returned (layer # fst r, snd r)
           | Panicked p \<Rightarrow> Panicked p
           | Exited \<Rightarrow> Exited)
      | Panicked p \<Rightarrow> Panicked p
      | Exited \<Rightarrow> Exited)"

text \<open>A complete circuit of \<open>n\<close> hops: the hop table holds the hops 0 to \<open>n - 1\<close>.\<close>

definition hop_key :: "(nat, orInfo) mapping \<Rightarrow> nat \<Rightarrow> bytes" where
  "hop_key hops i = (case Mapping.lookup hops i of None \<Rightarrow> [] | Some h \<Rightarrow> sharedKey h)"

definition hop_address :: "(nat, orInfo) mapping \<Rightarrow> nat \<Rightarrow> string" where
  "hop_address hops i = (case Mapping.lookup hops i of None \<Rightarrow> [] | Some h \<Rightarrow> address h)"

definition aes_key_size :: "bytes \<Rightarrow> bool" where
  "aes_key_size key = (length key = 16 \<or> length key = 24 \<or> length key = 32)"

section \<open>Concrete inputs\<close>

text \<open>
  Stand-ins for the library parameters, to run the definitions on concrete inputs: a block
  function that fills a block with the byte sum of key and register, and a serialisation of
  a layer as the exit flag, the length of the address in unary, the address, the data.
\<close>

definition example_aes :: block_cipher where
  "example_aes key b = replicate BlockSize (sum_list key + sum_list b)"

definition byte_of_char :: "char \<Rightarrow> byte" where
  "byte_of_char c = of_nat (of_char c)"

definition char_of_byte :: "byte \<Rightarrow> char" where
  "char_of_byte b = char_of (unat b)"

definition example_MarshalOnion :: "Onion \<Rightarrow> bytes" where
  "example_MarshalOnion layer =
     (if IsExitNode layer then 1 else 0) #
     replicate (length (NextAddress layer)) 1 @ [0] @
     map byte_of_char (NextAddress layer) @ Data layer"

definition example_UnmarshalOnion :: "bytes \<Rightarrow> go_error option \<times> Onion" where
  "example_UnmarshalOnion bs =
     (case bs of
        [] \<Rightarrow> (Some UnmarshalError, zero_Onion)
      | flag # rest \<Rightarrow>
          (let n = length (takeWhile (\<lambda>b. b = 1) rest);
               body = drop (Suc n) rest
           in if length rest \<le> n \<or> length body < n then (Some UnmarshalError, zero_Onion)
              else (None, \<lparr>Data = drop n body, IsExitNode = (flag = 1),
                           NextAddress = map char_of_byte (take n body)\<rparr>)))"

definition example_json :: json_codec where
  "example_json =
     \<lparr>MarshalOnion = example_MarshalOnion,
      UnmarshalOnion = example_UnmarshalOnion,
      MarshalChat = (\<lambda>m. map byte_of_char (Message m)),
      UnmarshalChat = (\<lambda>bs. (None, \<lparr>IRCServerAddr = ''127.0.0.1:7000'', Username = ''alice'',
                                      Message = map char_of_byte bs\<rparr>)),
      UnmarshalPolling = (\<lambda>bs. (None, \<lparr>PollIRCServerAddr = ''127.0.0.1:7000'',
                                         LastMessageId = int (length bs)\<rparr>))\<rparr>"

text \<open>
  A network where every dial to an address succeeds (to the empty address none does) and
  every call succeeds, and one where every call fails.
\<close>

definition example_net :: net where
  "example_net =
     \<lparr>dial = (\<lambda>a. if a = [] then Some (RPCError ''dial tcp: missing address'') else None),
      call = (\<lambda>a req. ([], None))\<rparr>"

definition failing_net :: net where
  "failing_net =
     \<lparr>dial = (\<lambda>a. None), call = (\<lambda>a req. ([], Some (RPCError ''connection is shut down'')))\<rparr>"

text \<open>A circuit of two hops.\<close>

definition example_hops :: "(nat, orInfo) mapping" where
  "example_hops =
     Mapping.update 1
       \<lparr>address = ''127.0.0.1:8001'', pubKey = (3127, 3), sharedKey = replicate 16 2\<rparr>
       (Mapping.update 0
          \<lparr>address = ''127.0.0.1:8000'', pubKey = (3233, 17), sharedKey = replicate 16 1\<rparr>
          Mapping.empty)"

definition example_proxy :: OnionProxy where
  "example_proxy =
     \<lparr>addr = ''127.0.0.1:9000'', username = ''alice'', circuitId = 7,
      ircServerAddr = ''127.0.0.1:7000'', ORInfoByHopNum = Mapping.empty\<rparr>"

text \<open>A key table of a relay, a layer for a relay in the middle, and a cell that holds it.\<close>

definition example_keys :: "32 word \<rightharpoonup> bytes" where
  "example_keys = [7 \<mapsto> replicate 16 1]"

definition relay_layer :: Onion where
  "relay_layer = \<lparr>Data = [9, 9, 9], IsExitNode = False, NextAddress = ''127.0.0.1:8001''\<rparr>"

definition relay_cell :: Cell where
  "relay_cell =
     \<lparr>CircuitId = 7,
      CellData = replicate 16 0 @
        CFBEncrypter_XORKeyStream (example_aes (replicate 16 1)) (replicate 16 0)
          (example_MarshalOnion relay_layer)\<rparr>"

text \<open>
  Stand-ins for the signature check and the key wrap, and three replies of the directory:
  one signed by the pinned key, one by another key, one with a signature that does not
  verify.
\<close>

definition example_util :: crypto_util where
  "example_util =
     \<lparr>PubKeyToString = (\<lambda>pk. if pk = (1, 2) then directoryServerPubKey else ''04ff''),
      ecdsa_Verify = (\<lambda>pk h r s. r = 11 \<and> s = 13),
      RSAEncrypt = (\<lambda>pk key. rev key)\<rparr>"

definition example_node :: OnionRouterInfo where
  "example_node = \<lparr>Address = ''127.0.0.1:8000'', RouterPubKey = (3233, 17)\<rparr>"

definition signed_set :: OnionRouterInfos where
  "signed_set =
     \<lparr>PubKey = Some (1, 2), Hash = [1, 2, 3], SigR = 11, SigS = 13, ORInfos = [example_node]\<rparr>"



text \<open>
  The keys that \<open>util.GenerateAESKey\<close> draws, and the bytes that \<open>rand.Reader\<close> delivers.
\<close>

definition example_GenerateAESKey :: "nat \<Rightarrow> bytes" where
  "example_GenerateAESKey hopNum = replicate 16 3"

definition example_rand :: "nat \<Rightarrow> bytes" where
  "example_rand hopNum = replicate 16 (of_nat hopNum)"

section \<open>Lemmas\<close>

subsection \<open>Cipher feedback mode and one layer\<close>



lemma length_xor_bytes: "length (xor_bytes a c) = min (length a) (length c)"
  by (simp add: xor_bytes_def)

lemma xor_bytes_cancel: "length a \<le> length c \<Longrightarrow> xor_bytes (xor_bytes a c) c = a"
proof (induction a arbitrary: c)
  case Nil
  then show ?case by (simp add: xor_bytes_def)
next
  case (Cons x a)
  then obtain y c' where c: "c = y # c'" by (cases c) auto
  with Cons have "xor_bytes (xor_bytes a c') c' = a" by simp
  then show ?case using c by (simp add: xor_bytes_def xor.assoc)
qed

lemma length_CFBEncrypter:
  "(\<And>x. length (b x) = BlockSize) \<Longrightarrow> length (CFBEncrypter_XORKeyStream b next src) = length src"
proof (induction b "next" src rule: CFBEncrypter_XORKeyStream.induct)
  case (1 b "next")
  then show ?case by simp
next
  case (2 b "next" x xs)
  have "length (CFBEncrypter_XORKeyStream b
            (xor_bytes (take BlockSize (x # xs)) (b next) @
             drop (length (xor_bytes (take BlockSize (x # xs)) (b next))) next)
            (drop BlockSize (x # xs))) = length (drop BlockSize (x # xs))"
    using 2 by (simp add: Let_def)
  then show ?case using 2(2) by (simp add: Let_def length_xor_bytes del: drop_Suc_Cons take_Suc_Cons) 
qed

lemma CFBDecrypter_unfold:
  "src \<noteq> [] \<Longrightarrow> CFBDecrypter_XORKeyStream b next src =
     (let out = b next;
          blk = take BlockSize src;
          dst = xor_bytes blk out
      in dst @ CFBDecrypter_XORKeyStream b (take (length dst) blk @ drop (length dst) next)
                 (drop BlockSize src))"
  by (cases src) (simp_all add: Let_def)

lemma CFB_round_trip:
  "(\<And>x. length (b x) = BlockSize) \<Longrightarrow>
   CFBDecrypter_XORKeyStream b next (CFBEncrypter_XORKeyStream b next src) = src"
proof (induction b "next" src rule: CFBEncrypter_XORKeyStream.induct)
  case (1 b "next")
  then show ?case by simp
next
  case (2 b "next" x xs)
  define src where "src = x # xs"
  define dst where "dst = xor_bytes (take BlockSize src) (b next)"
  define rest where "rest = CFBEncrypter_XORKeyStream b (dst @ drop (length dst) next) (drop BlockSize src)"
  have len_out: "length (b next) = BlockSize" using 2(2) by simp
  have len_dst: "length dst = min (length src) BlockSize"
    by (simp add: dst_def length_xor_bytes len_out)
  have dst_ne: "dst \<noteq> []" using len_dst by (auto simp: src_def)
  have enc: "CFBEncrypter_XORKeyStream b next src = dst @ rest"
    by (simp add: src_def dst_def rest_def Let_def)
  have len_rest: "length rest = length src - BlockSize"
    unfolding rest_def using length_CFBEncrypter [of b] 2(2) by simp
  have tk: "take BlockSize (dst @ rest) = dst"
    using len_dst len_rest by (cases "length src < BlockSize") auto
  have dr: "drop BlockSize (dst @ rest) = rest"
    using len_dst len_rest by (cases "length src < BlockSize") auto
  have undo: "xor_bytes dst (b next) = take BlockSize src"
    unfolding dst_def by (rule xor_bytes_cancel) (simp add: len_out)
  have IH: "CFBDecrypter_XORKeyStream b (dst @ drop (length dst) next) rest = drop BlockSize src"
    unfolding rest_def using 2(1) [OF refl refl] 2(2) by (simp add: src_def dst_def)
  have ne: "dst @ rest \<noteq> []" using dst_ne by simp
  have len_tk: "length (take BlockSize src) = length dst" using len_dst by simp
  have "CFBDecrypter_XORKeyStream b next (dst @ rest) = take BlockSize src @ drop BlockSize src"
    unfolding CFBDecrypter_unfold [OF ne] Let_def tk dr undo len_tk
    by (simp only: take_all [OF order_refl] IH)
  then show ?case using enc by (simp add: src_def)
qed


lemma length_ReadFull: "length (ReadFull r n) = n"
  by (simp add: ReadFull_def)

lemma NewCipher_ok: "aes_key_size key \<Longrightarrow> NewCipher aes key = Inr (aes key)"
  by (simp add: NewCipher_def aes_key_size_def)

lemma decrypt_encrypted:
  assumes bs: "block_sized aes" and key: "aes_key_size key" and iv: "length iv = BlockSize"
  shows "decrypt_one_layer json aes key (iv @ CFBEncrypter_XORKeyStream (aes key) iv plain) =
         Returned (snd (UnmarshalOnion json plain))"
proof -
  have b: "\<And>x. length (aes key x) = BlockSize" using bs by (simp add: block_sized_def)
  show ?thesis
    using iv by (simp add: decrypt_one_layer_def NewCipher_ok [OF key] CFB_round_trip [OF b])
qed

lemma encrypt_layer_ok:
  assumes "Mapping.lookup hops hopNum = Some cur" and "aes_key_size (sharedKey cur)"
  shows "encrypt_layer json aes rnd hops hopNum layer =
         Returned (ReadFull (rnd hopNum) BlockSize @
                   CFBEncrypter_XORKeyStream (aes (sharedKey cur)) (ReadFull (rnd hopNum) BlockSize)
                     (MarshalOnion json layer))"
  using assms by (simp add: encrypt_layer_def NewCipher_ok Let_def)

lemma unwrap_layers_append:
  "unwrap_layers json aes (ks @ ks') data =
     (case unwrap_layers json aes ks data of
        Returned r \<Rightarrow>
          (case unwrap_layers json aes ks' (snd r) of
             Returned r' \<Rightarrow> Returned (fst r @ fst r', snd r')
           | Panicked p \<Rightarrow> Panicked p
           | Exited \<Rightarrow> Exited)
      | Panicked p \<Rightarrow> Panicked p
      | Exited \<Rightarrow> Exited)"
  by (induction ks arbitrary: data) (auto split: outcome.splits)


lemma unencrypted_layer_ok:
  assumes "Mapping.keys hops = {0..<n}" and "k < n"
  shows "unencrypted_layer hops k enc =
           Returned \<lparr>Data = enc, IsExitNode = (Suc k = n),
                     NextAddress = (if Suc k = n then [] else hop_address hops (Suc k))\<rparr>"
proof (cases "Suc k = n")
  case True
  then show ?thesis using assms by (simp add: unencrypted_layer_def Mapping.size_def)
next
  case False
  with assms have "Suc k \<in> Mapping.keys hops" by simp
  then obtain nxt where "Mapping.lookup hops (Suc k) = Some nxt"
    by (auto simp: keys_dom_lookup)
  then show ?thesis
    using False assms by (simp add: unencrypted_layer_def hop_address_def Mapping.size_def)
qed

lemma onionize_loop_unwrap:
  assumes bs: "block_sized aes"
    and dm: "Mapping.keys hops = {0..<n}"
    and keys: "\<forall>i<n. aes_key_size (hop_key hops i)"
    and rt: "\<forall>layer. NextAddress layer \<in> insert [] (hop_address hops ` {0..<n}) \<longrightarrow>
               snd (UnmarshalOnion json (MarshalOnion json layer)) = layer"
  shows "k \<le> n \<Longrightarrow>
         \<exists>c layers. onionize_loop json aes rnd hops k enc = Returned c
           \<and> unwrap_layers json aes (map (hop_key hops) [0..<k]) c = Returned (layers, enc)
           \<and> map IsExitNode layers = map (\<lambda>i. Suc i = n) [0..<k]
           \<and> map NextAddress layers =
               map (\<lambda>i. if Suc i = n then [] else hop_address hops (Suc i)) [0..<k]"
proof (induction k arbitrary: enc)
  case 0
  then show ?case by simp
next
  case (Suc k)
  then have kn: "k < n" by simp
  with dm have "k \<in> Mapping.keys hops" by simp
  then obtain cur where cur: "Mapping.lookup hops k = Some cur"
    by (auto simp: keys_dom_lookup)
  have key: "aes_key_size (sharedKey cur)"
    using keys kn cur by (auto simp: hop_key_def)
  define layer where "layer = \<lparr>Data = enc, IsExitNode = (Suc k = n),
      NextAddress = (if Suc k = n then [] else hop_address hops (Suc k))\<rparr>"
  define iv where "iv = ReadFull (rnd k) BlockSize"
  define w where "w = iv @ CFBEncrypter_XORKeyStream (aes (sharedKey cur)) iv (MarshalOnion json layer)"
  have wrap: "onionize_layer json aes rnd hops k enc = Returned w"
    by (simp add: onionize_layer_def obind_def unencrypted_layer_ok [OF dm kn]
          encrypt_layer_ok [where hops = hops and hopNum = k, OF cur key] w_def iv_def layer_def)
  have "NextAddress layer \<in> insert [] (hop_address hops ` {0..<n})"
    using kn by (auto simp: layer_def)
  then have undo: "snd (UnmarshalOnion json (MarshalOnion json layer)) = layer"
    using rt by blast
  have dec: "decrypt_one_layer json aes (hop_key hops k) w = Returned layer"
    using decrypt_encrypted [OF bs key, of iv json "MarshalOnion json layer"] undo
    by (simp add: w_def iv_def length_ReadFull hop_key_def cur)
  from Suc.IH [of w] kn obtain c layers where
    c: "onionize_loop json aes rnd hops k w = Returned c"
    and u: "unwrap_layers json aes (map (hop_key hops) [0..<k]) c = Returned (layers, w)"
    and e: "map IsExitNode layers = map (\<lambda>i. Suc i = n) [0..<k]"
    and a: "map NextAddress layers =
               map (\<lambda>i. if Suc i = n then [] else hop_address hops (Suc i)) [0..<k]"
    by auto
  have "onionize_loop json aes rnd hops (Suc k) enc = Returned c"
    using wrap c by simp
  moreover have "unwrap_layers json aes (map (hop_key hops) [0..<Suc k]) c =
      Returned (layers @ [layer], enc)"
    using u dec by (simp add: unwrap_layers_append layer_def)
  moreover have "map IsExitNode (layers @ [layer]) = map (\<lambda>i. Suc i = n) [0..<Suc k]"
    using e by (simp add: layer_def)
  moreover have "map NextAddress (layers @ [layer]) =
      map (\<lambda>i. if Suc i = n then [] else hop_address hops (Suc i)) [0..<Suc k]"
    using a by (simp add: layer_def)
  ultimately show ?case by blast
qed

lemma unwrap_layers_length:
  "unwrap_layers json aes ks data = Returned r \<Longrightarrow> length (fst r) = length ks"
  by (induction ks arbitrary: data r) (auto split: outcome.splits)

lemma unwrap_layers_last:
  "unwrap_layers json aes ks data = Returned r \<Longrightarrow> ks \<noteq> [] \<Longrightarrow> Data (last (fst r)) = snd r"
proof (induction ks arbitrary: data r)
  case Nil
  then show ?case by simp
next
  case (Cons k ks)
  from Cons.prems(1) obtain layer r' where
    d: "decrypt_one_layer json aes k data = Returned layer"
    and u: "unwrap_layers json aes ks (Data layer) = Returned r'"
    and r: "r = (layer # fst r', snd r')"
    by (auto split: outcome.splits)
  show ?case
  proof (cases ks)
    case Nil
    with u r show ?thesis by auto
  next
    case (Cons k' ks')
    then have "fst r' \<noteq> []" using unwrap_layers_length [OF u] by auto
    moreover have "Data (last (fst r')) = snd r'" using Cons.IH [OF u] Cons by simp
    ultimately show ?thesis using r by simp
  qed
qed

subsection \<open>The concrete inputs\<close>

lemma char_of_byte_of_char: "char_of_byte (byte_of_char c) = c"
  by (simp add: char_of_byte_def byte_of_char_def unat_of_nat)

lemma takeWhile_ones:
  "takeWhile (\<lambda>b. b = (1::byte)) (replicate n 1 @ 0 # ys) = replicate n 1"
  by (induction n) simp_all

lemma example_json_round_trip:
  "snd (UnmarshalOnion example_json (MarshalOnion example_json layer)) = layer"
proof -
  define n where "n = length (NextAddress layer)"
  define rest where "rest = replicate n 1 @ 0 # (map byte_of_char (NextAddress layer) @ Data layer)"
  have m: "example_MarshalOnion layer = (if IsExitNode layer then 1 else 0) # rest"
    by (simp add: example_MarshalOnion_def rest_def n_def)
  have tw: "length (takeWhile (\<lambda>b. b = 1) rest) = n"
    by (simp add: rest_def takeWhile_ones)
  have body: "drop (Suc n) rest = map byte_of_char (NextAddress layer) @ Data layer"
    by (simp add: rest_def)
  have len: "length rest = Suc (n + n + length (Data layer))" by (simp add: rest_def n_def)
  have "example_UnmarshalOnion (example_MarshalOnion layer) =
        (None, \<lparr>Data = Data layer, IsExitNode = IsExitNode layer, NextAddress = NextAddress layer\<rparr>)"
    unfolding m example_UnmarshalOnion_def
    by (simp add: tw body len Let_def) (simp add: n_def char_of_byte_of_char comp_def)
  then show ?thesis by (simp add: example_json_def)
qed

lemma block_sized_example: "block_sized example_aes"
  by (simp add: block_sized_def example_aes_def)

lemma keys_example_hops: "Mapping.keys example_hops = {0..<2}"
  by (auto simp: example_hops_def)

lemma key_sizes_example_hops: "\<forall>i<2. aes_key_size (hop_key example_hops i)"
  by (auto simp: example_hops_def hop_key_def aes_key_size_def less_Suc_eq numeral_2_eq_2 lookup_update')

subsection \<open>Runs of the handlers and of the proxy\<close>

lemma andThen_Returned: "andThen (evs, Returned x) f = (evs @ fst (f x), snd (f x))"
  by (simp add: andThen_def split: prod.splits)

lemma andThen_Panicked: "andThen (evs, Panicked p) f = (evs, Panicked p)"
  by (simp add: andThen_def)

lemma andThen_Exited: "andThen (evs, Exited) f = (evs, Exited)"
  by (simp add: andThen_def)

lemmas andThen_simps = andThen_Returned andThen_Panicked andThen_Exited

lemma HandleFatalError_nil: "HandleFatalError fatal msg None = Returned ()"
  by (simp add: HandleFatalError_def)

lemma HandleFatalError_err: "HandleFatalError fatal msg (Some e) = fatal"
  by (simp add: HandleFatalError_def)

lemma DialOR_ok: "dial nw a = None \<Longrightarrow> DialOR fatal nw a = ([Dial a], Returned (Some a))"
  by (simp add: DialOR_def HandleFatalError_nil andThen_simps)

lemma DialOR_failed:
  "dial nw a = Some e \<Longrightarrow>
   DialOR fatal nw a = andThen ([Dial a], fatal) (\<lambda>_. ([], Returned None))"
  by (simp add: DialOR_def HandleFatalError_err)

lemma client_Call_live: "client_Call nw (Some a) req = ([Call a req], Returned (call nw a req))"
  by (simp add: client_Call_def)

lemma client_Call_nil: "client_Call nw None req = ([], Panicked NilPointerDereference)"
  by (simp add: client_Call_def)

lemma decrypt_short:
  "length data < BlockSize \<Longrightarrow> decrypt_one_layer json aes key data = Panicked SliceBoundsOutOfRange"
  by (simp add: decrypt_one_layer_def Let_def)

lemma decrypt_nil_key:
  "decrypt_one_layer json aes [] data =
     Panicked (if length data < BlockSize then SliceBoundsOutOfRange else NilPointerDereference)"
  by (simp add: decrypt_one_layer_def NewCipher_def Let_def)

lemma RelayChatMessageOnion_run:
  "RelayChatMessageOnion fatal nw a d cid =
     (case dial nw a of
        Some e \<Rightarrow>
          ([Dial a],
           case fatal of
             Returned _ \<Rightarrow> Panicked NilPointerDereference
           | Panicked p \<Rightarrow> Panicked p
           | Exited \<Rightarrow> Exited)
      | None \<Rightarrow>
          ([Dial a, Call a (ORServer_DecryptChatMessageCell \<lparr>CircuitId = cid, CellData = d\<rparr>)],
           Returned (snd (call nw a (ORServer_DecryptChatMessageCell \<lparr>CircuitId = cid, CellData = d\<rparr>)))))"
proof (cases "dial nw a")
  case None
  then show ?thesis
    by (simp add: RelayChatMessageOnion_def DialOR_ok client_Call_live andThen_simps Let_def)
next
  case (Some e)
  then show ?thesis
    by (cases fatal)
       (simp_all add: RelayChatMessageOnion_def DialOR_failed client_Call_nil andThen_simps
          Let_def)
qed

lemma relay_cell_decrypts:
  "decrypt_one_layer example_json example_aes (lookup_key example_keys (CircuitId relay_cell))
     (CellData relay_cell) = Returned relay_layer"
proof -
  have "aes_key_size (replicate 16 1)" by (simp add: aes_key_size_def)
  from decrypt_encrypted [OF block_sized_example this, of "replicate 16 0" example_json
      "MarshalOnion example_json relay_layer"]
  show ?thesis
    by (simp add: example_json_round_trip)
       (simp add: relay_cell_def example_keys_def lookup_key_def example_json_def)
qed

lemma onionize_empty: "OnionizeData json aes rnd Mapping.empty coreData = Returned coreData"
  by (simp add: OnionizeData_def Mapping.size_def)

lemma GetCircuit_checked:
  assumes "fst GetNodes = None" and "PubKey (snd GetNodes) = Some pk"
  shows "GetCircuitFromDServer u fatal nw Uint32 GetNodes GenerateAESKey op =
     (if PubKeyToString u pk \<noteq> directoryServerPubKey
         \<or> \<not> ecdsa_Verify u pk (Hash (snd GetNodes)) (SigR (snd GetNodes)) (SigS (snd GetNodes))
      then ([CallDirectory DServer_GetNodes],
            Returned (op\<lparr>circuitId := Uint32\<rparr>, Some NotTrustedDirectoryServerError))
      else andThen
             (CallDirectory DServer_GetNodes #
                fst (build_hops u fatal nw GenerateAESKey Uint32 0 (ORInfos (snd GetNodes))
                       (ORInfoByHopNum op)),
              snd (build_hops u fatal nw GenerateAESKey Uint32 0 (ORInfos (snd GetNodes))
                     (ORInfoByHopNum op)))
             (\<lambda>tbl. ([], Returned (op\<lparr>circuitId := Uint32, ORInfoByHopNum := tbl\<rparr>, None))))"
  using assms
  by (cases "build_hops u fatal nw GenerateAESKey Uint32 0 (ORInfos (snd GetNodes)) (ORInfoByHopNum op)")
     (auto simp: GetCircuitFromDServer_def HandleFatalError_nil andThen_def Let_def
        split: outcome.splits)

lemma OP_DialOR_ok:
  "dial nw a = None \<Longrightarrow> OP_DialOR fatal nw a = ([Dial a], Returned (Some a))"
  by (simp add: OP_DialOR_def HandleFatalError_nil andThen_simps)

subsection \<open>The heartbeat loop\<close>

lemma sendHeartBeat_ok:
  "sendHeartBeat fatal a None = ([CallDirectory (DServer_KeepNodeOnline a)], Returned ())"
  by (simp add: sendHeartBeat_def HandleFatalError_nil)

lemma sendHeartBeat_err:
  "sendHeartBeat fatal a (Some e) = ([CallDirectory (DServer_KeepNodeOnline a)], fatal)"
  by (simp add: sendHeartBeat_def HandleFatalError_err)

text \<open>While the directory calls succeed the loop sends one ping per round and runs on.\<close>

lemma heartbeats_all_ok:
  "(\<And>i. i < fuel \<Longrightarrow> dir (s + i) = None) \<Longrightarrow>
   startSendingHeartbeatsToServer fatal a dir s fuel =
     (replicate fuel (CallDirectory (DServer_KeepNodeOnline a)), None)"
proof (induction fuel arbitrary: s)
  case 0
  then show ?case by simp
next
  case (Suc fuel)
  have "dir s = None" using Suc.prems [of 0] by simp
  moreover have "startSendingHeartbeatsToServer fatal a dir (Suc s) fuel =
     (replicate fuel (CallDirectory (DServer_KeepNodeOnline a)), None)"
    using Suc.prems [of "Suc i" for i] by (intro Suc.IH) simp
  ultimately show ?case by (simp add: sendHeartBeat_ok)
qed

text \<open>
  What a failed call does to the loop is what the helper does with the error: over a helper
  that returns the loop runs on through failures, over one that ends the process the first
  failure is the last ping.
\<close>

lemma heartbeats_helper_returns:
  "startSendingHeartbeatsToServer (Returned ()) a dir s fuel =
     (replicate fuel (CallDirectory (DServer_KeepNodeOnline a)), None)"
proof (induction fuel arbitrary: s)
  case 0
  then show ?case by simp
next
  case (Suc fuel)
  then show ?case
    by (cases "dir s") (simp_all add: sendHeartBeat_ok sendHeartBeat_err)
qed

lemma heartbeats_helper_exits:
  "(\<And>i. i < t \<Longrightarrow> dir (s + i) = None) \<Longrightarrow> dir (s + t) = Some e \<Longrightarrow> t < fuel \<Longrightarrow>
   startSendingHeartbeatsToServer Exited a dir s fuel =
     (replicate (Suc t) (CallDirectory (DServer_KeepNodeOnline a)), Some Exited)"
proof (induction t arbitrary: s fuel)
  case 0
  then obtain f where "fuel = Suc f" by (cases fuel) auto
  then show ?case using 0 by (simp add: sendHeartBeat_err)
next
  case (Suc t)
  then obtain f where f: "fuel = Suc f" by (cases fuel) auto
  have "dir s = None" using Suc.prems(1) [of 0] by simp
  moreover have "startSendingHeartbeatsToServer Exited a dir (Suc s) f =
     (replicate (Suc t) (CallDirectory (DServer_KeepNodeOnline a)), Some Exited)"
    using Suc.prems f Suc.prems(1) [of "Suc i" for i] by (intro Suc.IH) simp_all
  ultimately show ?case using f by (simp add: sendHeartBeat_ok)
qed

section \<open>The claims\<close>

text \<open>
  C1. For every message \<open>M\<close> and every complete circuit of \<open>n \<ge> 1\<close> hops (the hop table
  holds the hops 0 to \<open>n - 1\<close>, each with a key that \<open>aes.NewCipher\<close> accepts),
  \<open>OnionizeData\<close> returns a ciphertext, and decoding it \<open>n\<close> times in hop order, each
  time with that hop's key, returns \<open>n\<close> layers and the message \<open>M\<close> as the data of the
  last of them; \<open>IsExitNode\<close> is set in the last layer only, and the \<open>NextAddress\<close> of
  every earlier layer is the address the hop table holds for the hop after it.
  The block function writes whole blocks, and \<open>json.Unmarshal\<close> gives back the layer
  that \<open>json.Marshal\<close> was given, for layers that carry no address or an address of the
  circuit.
\<close>

theorem onion_round_trip:
  assumes "block_sized aes"
    and "Mapping.keys hops = {0..<n}"
    and "0 < n"
    and "\<forall>i<n. aes_key_size (hop_key hops i)"
    and "\<forall>layer. NextAddress layer \<in> insert [] (hop_address hops ` {0..<n}) \<longrightarrow>
           snd (UnmarshalOnion json (MarshalOnion json layer)) = layer"
  shows "\<exists>c layers. OnionizeData json aes rnd hops M = Returned c
           \<and> unwrap_layers json aes (map (hop_key hops) [0..<n]) c = Returned (layers, M)
           \<and> length layers = n
           \<and> Data (last layers) = M
           \<and> (\<forall>i<n. IsExitNode (layers ! i) = (Suc i = n))
           \<and> (\<forall>i. Suc i < n \<longrightarrow> NextAddress (layers ! i) = hop_address hops (Suc i))"
proof -
  have card: "Mapping.size hops = n" using assms(2) by (simp add: Mapping.size_def)
  from onionize_loop_unwrap [OF assms(1,2,4,5) order_refl, where rnd = rnd and enc = M] obtain c layers where
    c: "onionize_loop json aes rnd hops n M = Returned c"
    and u: "unwrap_layers json aes (map (hop_key hops) [0..<n]) c = Returned (layers, M)"
    and e: "map IsExitNode layers = map (\<lambda>i. Suc i = n) [0..<n]"
    and a: "map NextAddress layers =
               map (\<lambda>i. if Suc i = n then [] else hop_address hops (Suc i)) [0..<n]"
    by blast
  have len: "length layers = n"
    using arg_cong [OF e, of length] by simp
  have lst: "Data (last layers) = M"
    using unwrap_layers_last [OF u] assms(3) by simp
  have ex: "\<forall>i<n. IsExitNode (layers ! i) = (Suc i = n)"
  proof (intro allI impI)
    fix i assume "i < n"
    then have "map IsExitNode layers ! i = map (\<lambda>i. Suc i = n) [0..<n] ! i" using e by simp
    then show "IsExitNode (layers ! i) = (Suc i = n)" using \<open>i < n\<close> len by simp
  qed
  have ad: "\<forall>i. Suc i < n \<longrightarrow> NextAddress (layers ! i) = hop_address hops (Suc i)"
  proof (intro allI impI)
    fix i assume i: "Suc i < n"
    then have "map NextAddress layers ! i =
        map (\<lambda>i. if Suc i = n then [] else hop_address hops (Suc i)) [0..<n] ! i" using a by simp
    then show "NextAddress (layers ! i) = hop_address hops (Suc i)" using i len by simp
  qed
  show ?thesis
    unfolding OnionizeData_def card using c u len lst ex ad by blast
qed

text \<open>C1 on the circuit of two hops and the message \<open>[104, 105]\<close>.\<close>

theorem onion_round_trip_witness:
  "\<exists>c layers.
      OnionizeData example_json example_aes example_rand example_hops [104, 105]
        = Returned c
      \<and> unwrap_layers example_json example_aes (map (hop_key example_hops) [0..<2]) c
          = Returned (layers, [104, 105])
      \<and> length layers = 2
      \<and> Data (last layers) = [104, 105]
      \<and> (\<forall>i<2. IsExitNode (layers ! i) = (Suc i = 2))
      \<and> (\<forall>i. Suc i < 2 \<longrightarrow> NextAddress (layers ! i) = hop_address example_hops (Suc i))"
  using onion_round_trip [OF block_sized_example keys_example_hops _ key_sizes_example_hops,
      where json = example_json and M = "[104, 105]" and rnd = example_rand]
    example_json_round_trip
  by simp

text \<open>
  C2, on the code. A cell whose circuit id has no entry in \<open>sharedKeysByCircuitId\<close>
  gets the nil key. The handler prints the error of \<open>aes.NewCipher\<close> and goes on: it
  panics at the slices when the data is shorter than a block, and at
  \<open>cipher.NewCFBDecrypter\<close> on the nil block otherwise. It dials and calls nothing, and
  it returns no error.
\<close>

theorem unknown_circuit_panics:
  assumes "sharedKeysByCircuitId (CircuitId cell) = None"
  shows "DecryptChatMessageCell json aes fatal nw sharedKeysByCircuitId cell =
     ([], Panicked (if length (CellData cell) < BlockSize then SliceBoundsOutOfRange
                    else NilPointerDereference))"
  using assms
  by (simp add: DecryptChatMessageCell_def lookup_key_def decrypt_nil_key andThen_simps Let_def)

text \<open>
  C2 on a cell of 20 bytes for circuit 8 at a relay that holds a key for circuit 7 only.
\<close>

theorem unknown_circuit_panics_witness:
  "example_keys (CircuitId \<lparr>CircuitId = 8, CellData = replicate 20 0\<rparr>) = None
   \<and> DecryptChatMessageCell example_json example_aes Exited example_net example_keys
        \<lparr>CircuitId = 8, CellData = replicate 20 0\<rparr> = ([], Panicked NilPointerDereference)"
  using unknown_circuit_panics [where sharedKeysByCircuitId = example_keys
      and cell = "\<lparr>CircuitId = 8, CellData = replicate 20 0\<rparr>" and json = example_json
      and aes = example_aes and fatal = Exited and nw = example_net]
  by (simp add: example_keys_def)

text \<open>
  C3, on the code. The directory's reply is signed by the pinned key and lists one router;
  the router is dialled, and the \<open>ORServer.SendCircuitInfo\<close> call returns an error.
  \<open>GetCircuitFromDServer\<close> does not read that error: it records the hop with the key
  the router never acknowledged, and returns nil.
\<close>

theorem failed_key_exchange_is_recorded:
  assumes "fst GetNodes = None"
    and "PubKey (snd GetNodes) = Some pk"
    and "PubKeyToString u pk = directoryServerPubKey"
    and "ecdsa_Verify u pk (Hash (snd GetNodes)) (SigR (snd GetNodes)) (SigS (snd GetNodes))"
    and "ORInfos (snd GetNodes) = [r]"
    and "dial nw (Address r) = None"
    and "snd (call nw (Address r)
           (ORServer_SendCircuitInfo
              \<lparr>InfoCircuitId = Uint32,
               EncryptedSharedKey = RSAEncrypt u (RouterPubKey r) (GenerateAESKey 0)\<rparr>)) = Some e"
  shows "GetCircuitFromDServer u fatal nw Uint32 GetNodes GenerateAESKey op =
     ([CallDirectory DServer_GetNodes, Dial (Address r),
       Call (Address r)
         (ORServer_SendCircuitInfo
            \<lparr>InfoCircuitId = Uint32,
             EncryptedSharedKey = RSAEncrypt u (RouterPubKey r) (GenerateAESKey 0)\<rparr>)],
      Returned
        (op\<lparr>circuitId := Uint32,
            ORInfoByHopNum :=
              Mapping.update 0
                \<lparr>address = Address r, pubKey = RouterPubKey r, sharedKey = GenerateAESKey 0\<rparr>
                (ORInfoByHopNum op)\<rparr>,
         None))"
  using assms(3-6)
  by (simp add: GetCircuit_checked [OF assms(1,2)] OP_DialOR_ok client_Call_live andThen_simps
      Let_def)

text \<open>
  C3 on the reply \<open>signed_set\<close> and a network whose every call fails.
\<close>

theorem failed_key_exchange_is_recorded_witness:
  "snd (call failing_net (Address example_node)
          (ORServer_SendCircuitInfo
             \<lparr>InfoCircuitId = 9,
              EncryptedSharedKey = RSAEncrypt example_util (RouterPubKey example_node)
                                     (example_GenerateAESKey 0)\<rparr>)) =
     Some (RPCError ''connection is shut down'')
   \<and> GetCircuitFromDServer example_util Exited failing_net 9 (None, signed_set)
       example_GenerateAESKey example_proxy =
     ([CallDirectory DServer_GetNodes, Dial (Address example_node),
       Call (Address example_node)
         (ORServer_SendCircuitInfo
            \<lparr>InfoCircuitId = 9,
             EncryptedSharedKey = RSAEncrypt example_util (RouterPubKey example_node)
                                    (example_GenerateAESKey 0)\<rparr>)],
      Returned
        (example_proxy\<lparr>circuitId := 9,
            ORInfoByHopNum :=
              Mapping.update 0
                \<lparr>address = Address example_node, pubKey = RouterPubKey example_node,
                 sharedKey = example_GenerateAESKey 0\<rparr>
                (ORInfoByHopNum example_proxy)\<rparr>,
         None))"
  using failed_key_exchange_is_recorded [of "(None, signed_set)" "(1, 2)" example_util
      example_node failing_net 9 example_GenerateAESKey "RPCError ''connection is shut down''"
      Exited example_proxy]
  by (simp add: signed_set_def example_util_def failing_net_def)

text \<open>
  C4, on the code. The relay holds a key that \<open>aes.NewCipher\<close> accepts for the cell's
  circuit, and \<open>json.Unmarshal\<close> fails on what the cell decrypts to under that key,
  leaving the layer zero (as it does on bytes that are not JSON, which is what a cell
  encrypted under another key decrypts to). The handler drops the error: with
  \<open>IsExitNode\<close> false it relays an empty cell to the empty address, and it returns nil
  when the dial succeeds. When the dial fails the error goes to \<open>HandleFatalError\<close> in
  \<open>DialOR\<close>: the run ends there as the helper ends it, and if the helper returns, the call
  on the nil client panics. In no case is an error returned.
\<close>

theorem undecodable_layer_is_routed:
  assumes "sharedKeysByCircuitId (CircuitId cell) = Some key"
    and "aes_key_size key"
    and "BlockSize \<le> length (CellData cell)"
    and "UnmarshalOnion json
           (CFBDecrypter_XORKeyStream (aes key) (take BlockSize (CellData cell))
              (drop BlockSize (CellData cell))) = (Some err, zero_Onion)"
  shows "DecryptChatMessageCell json aes fatal nw sharedKeysByCircuitId cell =
     (case dial nw [] of
        Some e \<Rightarrow>
          ([Dial []],
           case fatal of
             Returned _ \<Rightarrow> Panicked NilPointerDereference
           | Panicked p \<Rightarrow> Panicked p
           | Exited \<Rightarrow> Exited)
      | None \<Rightarrow>
          ([Dial [], Call [] (ORServer_DecryptChatMessageCell
                                \<lparr>CircuitId = CircuitId cell, CellData = []\<rparr>)],
           Returned None))"
proof -
  have "decrypt_one_layer json aes key (CellData cell) = Returned zero_Onion"
    using assms(2,3,4) by (simp add: decrypt_one_layer_def NewCipher_ok Let_def)
  then show ?thesis
    using assms(1)
    by (cases fatal)
       (simp_all add: DecryptChatMessageCell_def lookup_key_def andThen_simps Let_def
          zero_Onion_def RelayChatMessageOnion_run split: option.splits)
qed

text \<open>
  C4 on a cell that is one block long, so that the bytes to decode are empty, with a dial
  of the empty address that fails and a helper that ends the process.
\<close>

theorem undecodable_layer_is_routed_witness:
  "DecryptChatMessageCell example_json example_aes Exited example_net example_keys
     \<lparr>CircuitId = 7, CellData = replicate 16 0\<rparr> =
   ([Dial []], Exited)"
  using undecodable_layer_is_routed [where sharedKeysByCircuitId = example_keys
      and cell = "\<lparr>CircuitId = 7, CellData = replicate 16 0\<rparr>" and key = "replicate 16 1"
      and json = example_json and aes = example_aes and err = UnmarshalError
      and nw = example_net and fatal = Exited]
  by (simp add: example_keys_def aes_key_size_def example_json_def example_UnmarshalOnion_def
      example_net_def)




text \<open>
  C6, on the code. The cell decodes to a layer that is not for the exit, the next hop is
  dialled, and the blocking \<open>ORServer.DecryptChatMessageCell\<close> call to it, with the same
  circuit id and the layer's data, returns an error. \<open>RelayChatMessageOnion\<close> returns
  that error, and \<open>DecryptChatMessageCell\<close> drops it and returns nil to its own caller.
\<close>

theorem next_hop_error_dropped:
  assumes "decrypt_one_layer json aes (lookup_key sharedKeysByCircuitId (CircuitId cell))
             (CellData cell) = Returned layer"
    and "\<not> IsExitNode layer"
    and "dial nw (NextAddress layer) = None"
    and "snd (call nw (NextAddress layer)
           (ORServer_DecryptChatMessageCell
              \<lparr>CircuitId = CircuitId cell, CellData = Data layer\<rparr>)) = Some e"
  shows "RelayChatMessageOnion fatal nw (NextAddress layer) (Data layer) (CircuitId cell) =
           ([Dial (NextAddress layer),
             Call (NextAddress layer)
               (ORServer_DecryptChatMessageCell
                  \<lparr>CircuitId = CircuitId cell, CellData = Data layer\<rparr>)],
            Returned (Some e))
       \<and> DecryptChatMessageCell json aes fatal nw sharedKeysByCircuitId cell =
           ([Dial (NextAddress layer),
             Call (NextAddress layer)
               (ORServer_DecryptChatMessageCell
                  \<lparr>CircuitId = CircuitId cell, CellData = Data layer\<rparr>)],
            Returned None)"
  using assms
  by (simp add: DecryptChatMessageCell_def andThen_simps Let_def RelayChatMessageOnion_run)

text \<open>
  C6 on \<open>relay_cell\<close> and a network whose every call fails.
\<close>

theorem next_hop_error_dropped_witness:
  "RelayChatMessageOnion Exited failing_net ''127.0.0.1:8001'' [9, 9, 9] 7 =
     ([Dial ''127.0.0.1:8001'',
       Call ''127.0.0.1:8001''
         (ORServer_DecryptChatMessageCell \<lparr>CircuitId = 7, CellData = [9, 9, 9]\<rparr>)],
      Returned (Some (RPCError ''connection is shut down'')))
   \<and> DecryptChatMessageCell example_json example_aes Exited failing_net example_keys relay_cell =
     ([Dial ''127.0.0.1:8001'',
       Call ''127.0.0.1:8001''
         (ORServer_DecryptChatMessageCell \<lparr>CircuitId = 7, CellData = [9, 9, 9]\<rparr>)],
      Returned None)"
proof -
  have cid: "CircuitId relay_cell = 7" by (simp add: relay_cell_def)
  have "\<not> IsExitNode relay_layer" by (simp add: relay_layer_def)
  moreover have "dial failing_net (NextAddress relay_layer) = None"
    by (simp add: failing_net_def)
  moreover have "snd (call failing_net (NextAddress relay_layer)
           (ORServer_DecryptChatMessageCell
              \<lparr>CircuitId = CircuitId relay_cell, CellData = Data relay_layer\<rparr>)) =
         Some (RPCError ''connection is shut down'')"
    by (simp add: failing_net_def)
  ultimately show ?thesis
    using next_hop_error_dropped [OF relay_cell_decrypts, where fatal = Exited]
    by (simp add: relay_layer_def cid)
qed

text \<open>
  C8. For every layer that a round of \<open>OnionizeData\<close> encrypts for a hop of the table
  whose key \<open>aes.NewCipher\<close> accepts, the round returns a ciphertext whose length is the
  block size (the length of the IV) plus the length of the layer's serialisation, and whose
  first block is the IV read from the random source.
\<close>

theorem encrypt_layer_length:
  assumes "block_sized aes" and "Mapping.lookup hops hopNum = Some cur"
    and "aes_key_size (sharedKey cur)"
  shows "\<exists>ciphertext. encrypt_layer json aes rnd hops hopNum layer = Returned ciphertext
           \<and> length ciphertext = BlockSize + length (MarshalOnion json layer)
           \<and> take BlockSize ciphertext = ReadFull (rnd hopNum) BlockSize"
proof -
  have b: "\<And>x. length (aes (sharedKey cur) x) = BlockSize"
    using assms(1) by (simp add: block_sized_def)
  show ?thesis
    using assms(2,3)
    by (simp add: encrypt_layer_ok length_ReadFull length_CFBEncrypter [OF b])
qed

text \<open>C8 on the exit layer of the circuit of two hops.\<close>

theorem encrypt_layer_length_witness:
  "\<exists>ciphertext.
      encrypt_layer example_json example_aes example_rand example_hops 1
        \<lparr>Data = [104, 105], IsExitNode = True, NextAddress = []\<rparr> = Returned ciphertext
      \<and> length ciphertext =
          BlockSize + length (MarshalOnion example_json
                                \<lparr>Data = [104, 105], IsExitNode = True, NextAddress = []\<rparr>)
      \<and> take BlockSize ciphertext = ReadFull (example_rand 1) BlockSize"
  using encrypt_layer_length [OF block_sized_example, where hops = example_hops and hopNum = 1
      and json = example_json and rnd = example_rand
      and cur = "\<lparr>address = ''127.0.0.1:8001'', pubKey = (3127, 3), sharedKey = replicate 16 2\<rparr>"]
  by (simp add: example_hops_def aes_key_size_def)

text \<open>
  C9, as amended. With an empty hop table \<open>OnionizeData\<close> returns its input unchanged,
  and \<open>SendMessage\<close> hands the serialised chat message, with no layer of encryption,
  to \<open>SendChatMessageOnion\<close> as the cell's data; \<open>SendMessage\<close> dials and calls nothing.
\<close>

theorem empty_circuit_sends_nothing:
  assumes "ORInfoByHopNum op = Mapping.empty"
  shows "OnionizeData json aes rnd (ORInfoByHopNum op) coreData = Returned coreData
       \<and> SendMessage json aes fatal nw rnd op message =
           SendChatMessageOnion fatal nw op
             (MarshalChat json \<lparr>IRCServerAddr = ircServerAddr op, Username = username op,
                                 Message = message\<rparr>)
             (circuitId op)
       \<and> fst (SendMessage json aes fatal nw rnd op message) = []"
  using assms
  by (simp add: SendMessage_def onionize_empty andThen_simps Let_def SendChatMessageOnion_def)

text \<open>
  C9 on a proxy that has built no circuit.
\<close>

theorem empty_circuit_sends_nothing_witness:
  "ORInfoByHopNum example_proxy = Mapping.empty
   \<and> OnionizeData example_json example_aes example_rand (ORInfoByHopNum example_proxy) [104, 105]
       = Returned [104, 105]
   \<and> fst (SendMessage example_json example_aes Exited example_net example_rand example_proxy ''hi'') = []"
proof -
  have h: "ORInfoByHopNum example_proxy = Mapping.empty"
    by (simp add: example_proxy_def)
  from empty_circuit_sends_nothing [OF h, where json = example_json and aes = example_aes
      and rnd = example_rand and coreData = "[104, 105]" and nw = example_net and fatal = Exited and message = "''hi''"]
  show ?thesis using h by blast
qed

text \<open>
  C9 as stated has \<open>send_message\<close> transmit the cell. \<open>SendChatMessageOnion\<close> reads
  the guard's address through \<open>op.ORInfoByHopNum[0]\<close> before it dials; with an empty table
  that is a nil pointer, and the run ends there with nothing sent.
\<close>

theorem empty_circuit_transmits_no_cell:
  "SendMessage example_json example_aes Exited example_net example_rand example_proxy ''hi'' =
     ([], Panicked NilPointerDereference)"
  by (simp add: SendMessage_def example_proxy_def onionize_empty andThen_simps Let_def
      SendChatMessageOnion_def)

text \<open>
  C10. For every cell whose data is shorter than one AES block of 16 bytes, both
  \<open>DecryptChatMessageCell\<close> and \<open>DecryptPollingCell\<close> panic at the slice expressions,
  whatever the key table holds, before anything is dialled or called, and return no error.
\<close>

theorem short_cell_panics:
  assumes "length (CellData cell) < BlockSize"
  shows "DecryptChatMessageCell json aes fatal nw tbl cell = ([], Panicked SliceBoundsOutOfRange)
       \<and> DecryptPollingCell json aes fatal nw tbl cell = ([], Panicked SliceBoundsOutOfRange)"
  using assms
  by (simp add: DecryptChatMessageCell_def DecryptPollingCell_def decrypt_short andThen_simps Let_def)

text \<open>
  C10 on a cell of three bytes.
\<close>

theorem short_cell_panics_witness:
  "length (CellData \<lparr>CircuitId = 7, CellData = [1, 2, 3]\<rparr>) < BlockSize
   \<and> DecryptChatMessageCell example_json example_aes Exited example_net example_keys
        \<lparr>CircuitId = 7, CellData = [1, 2, 3]\<rparr> = ([], Panicked SliceBoundsOutOfRange)
   \<and> DecryptPollingCell example_json example_aes Exited example_net example_keys
        \<lparr>CircuitId = 7, CellData = [1, 2, 3]\<rparr> = ([], Panicked SliceBoundsOutOfRange)"
  using short_cell_panics [where cell = "\<lparr>CircuitId = 7, CellData = [1, 2, 3]\<rparr>"
      and json = example_json and aes = example_aes and fatal = Exited and nw = example_net
      and tbl = example_keys]
  by simp

end
